theory Spec2Isabelle
  imports Main "HOL-Library.Word"
begin

unbundle bit_operations_syntax

section \<open>The hardware seen by PapilioSPI\<close>

text \<open>
  The library drives three things that live outside it: the GPIO pin used as select line
  (\<open>pinMode\<close>, \<open>digitalWrite\<close>), the busy-wait clock (\<open>delayMicroseconds\<close>) and an
  \<open>SPIClass\<close> driver object (\<open>beginTransaction\<close>, \<open>transfer\<close>, \<open>endTransaction\<close>).
  Every such call is logged, in program order, as one event. Caller buffers live in a
  byte-addressed memory, so that a burst whose two buffers overlap behaves as the C++ does.
\<close>

type_synonym uint8_t = "8 word"
type_synonym uint16_t = "16 word"
type_synonym uint32_t = "32 word"

datatype level = LOW | HIGH

datatype pin_mode = OUTPUT

datatype bit_order = MSBFIRST

datatype event =
    PinMode int pin_mode
  | DigitalWrite int level
  | DelayMicroseconds nat
  | BeginTransaction nat uint32_t bit_order uint8_t
  | Transfer nat uint8_t uint8_t
  | EndTransaction nat

record world =
  trace :: "event list"
  mem :: "nat \<Rightarrow> uint8_t"

text \<open>
  The peripheral is a black box: the byte it shifts out during an exchange may depend on
  everything that happened on the pins so far, on the driver object used and on the byte
  shifted in. \<open>X tr sp d\<close> is the byte received when \<open>d\<close> is sent through driver \<open>sp\<close>
  after the history \<open>tr\<close>.
\<close>

type_synonym periph = "event list \<Rightarrow> nat \<Rightarrow> uint8_t \<Rightarrow> uint8_t"

definition pinMode :: "int \<Rightarrow> pin_mode \<Rightarrow> world \<Rightarrow> world" where
  "pinMode pin m w = w\<lparr>trace := trace w @ [PinMode pin m]\<rparr>"

definition digitalWrite :: "int \<Rightarrow> level \<Rightarrow> world \<Rightarrow> world" where
  "digitalWrite pin l w = w\<lparr>trace := trace w @ [DigitalWrite pin l]\<rparr>"

definition delayMicroseconds :: "nat \<Rightarrow> world \<Rightarrow> world" where
  "delayMicroseconds us w = w\<lparr>trace := trace w @ [DelayMicroseconds us]\<rparr>"

definition SPIClass_beginTransaction ::
    "nat \<Rightarrow> uint32_t \<Rightarrow> bit_order \<Rightarrow> uint8_t \<Rightarrow> world \<Rightarrow> world" where
  "SPIClass_beginTransaction sp clock order dataMode w =
     w\<lparr>trace := trace w @ [BeginTransaction sp clock order dataMode]\<rparr>"

definition SPIClass_endTransaction :: "nat \<Rightarrow> world \<Rightarrow> world" where
  "SPIClass_endTransaction sp w = w\<lparr>trace := trace w @ [EndTransaction sp]\<rparr>"

definition SPIClass_transfer :: "periph \<Rightarrow> nat \<Rightarrow> uint8_t \<Rightarrow> world \<Rightarrow> uint8_t \<times> world" where
  "SPIClass_transfer X sp d w =
     (let r = X (trace w) sp d in (r, w\<lparr>trace := trace w @ [Transfer sp d r]\<rparr>))"

section \<open>The link handle (class PapilioSPI)\<close>

text \<open>
  The private fields \<open>_spi\<close>, \<open>_cs\<close>, \<open>_speed\<close>, \<open>_mode\<close>, \<open>_bitWidth\<close>, \<open>_initialized\<close>.
  \<open>spi = None\<close> is the null pointer, \<open>Some sp\<close> points to driver object \<open>sp\<close>.
\<close>

record PapilioSPI =
  spi :: "nat option"
  cs :: int
  speed :: uint32_t
  mode :: uint8_t
  bitWidth :: uint8_t
  initialized :: bool

text \<open>
  The constructor. \<open>SPI_MODE0\<close> (like \<open>SPI_MODE3\<close> below) comes from the platform's
  \<open>SPI.h\<close> and is a parameter here.
\<close>

definition PapilioSPI_new :: "uint8_t \<Rightarrow> PapilioSPI" where
  "PapilioSPI_new SPI_MODE0 =
     \<lparr>spi = None, cs = - 1, speed = 1000000, mode = SPI_MODE0, bitWidth = 8,
      initialized = False\<rparr>"

definition PapilioSPI_begin ::
    "PapilioSPI \<Rightarrow> nat option \<Rightarrow> int \<Rightarrow> uint32_t \<Rightarrow> uint8_t \<Rightarrow> world
      \<Rightarrow> bool \<times> PapilioSPI \<times> world" where
  "PapilioSPI_begin s spi' cs_pin speed' mode' w =
     (let s1 = s\<lparr>spi := spi', cs := cs_pin, speed := speed', mode := mode', bitWidth := 8\<rparr>;
          w1 = pinMode (cs s1) OUTPUT w;
          w2 = digitalWrite (cs s1) HIGH w1;
          s2 = s1\<lparr>initialized := True\<rparr>
      in (True, s2, w2))"

definition PapilioSPI_end :: "PapilioSPI \<Rightarrow> PapilioSPI" where
  "PapilioSPI_end s = s\<lparr>initialized := False, spi := None\<rparr>"

subsection \<open>Internal helpers\<close>

definition beginTransaction :: "PapilioSPI \<Rightarrow> world \<Rightarrow> world" where
  "beginTransaction s w =
     (case spi s of
        Some sp \<Rightarrow> SPIClass_beginTransaction sp (speed s) MSBFIRST (mode s) w
      | None \<Rightarrow> w)"

definition endTransaction :: "PapilioSPI \<Rightarrow> world \<Rightarrow> world" where
  "endTransaction s w =
     (case spi s of Some sp \<Rightarrow> SPIClass_endTransaction sp w | None \<Rightarrow> w)"

definition csLow :: "PapilioSPI \<Rightarrow> world \<Rightarrow> world" where
  "csLow s w = delayMicroseconds 1 (digitalWrite (cs s) LOW w)"

definition csHigh :: "PapilioSPI \<Rightarrow> world \<Rightarrow> world" where
  "csHigh s w = digitalWrite (cs s) HIGH (delayMicroseconds 1 w)"

subsection \<open>Word transfers\<close>

text \<open>
  Each transfer returns at once unless \<open>_initialized\<close> is set and \<open>_spi\<close> is non-null;
  \<open>the (spi s)\<close> is only reached behind that guard.
\<close>

definition transfer8 :: "periph \<Rightarrow> PapilioSPI \<Rightarrow> uint8_t \<Rightarrow> world \<Rightarrow> uint8_t \<times> world" where
  "transfer8 X s d w =
     (if \<not> initialized s \<or> spi s = None then (0, w)
      else
        let w1 = beginTransaction s w;
            w2 = csLow s w1;
            (result, w3) = SPIClass_transfer X (the (spi s)) d w2;
            w4 = csHigh s w3;
            w5 = endTransaction s w4
        in (result, w5))"

definition transfer16 :: "periph \<Rightarrow> PapilioSPI \<Rightarrow> uint16_t \<Rightarrow> world \<Rightarrow> uint16_t \<times> world" where
  "transfer16 X s d w =
     (if \<not> initialized s \<or> spi s = None then (0, w)
      else
        let w1 = beginTransaction s w;
            w2 = csLow s w1;
            (high, w3) = SPIClass_transfer X (the (spi s)) (ucast (drop_bit 8 d AND 0xFF)) w2;
            (low, w4) = SPIClass_transfer X (the (spi s)) (ucast (d AND 0xFF)) w3;
            w5 = csHigh s w4;
            w6 = endTransaction s w5;
            result = push_bit 8 (ucast high) OR ucast low
        in (result, w6))"

definition transfer32 :: "periph \<Rightarrow> PapilioSPI \<Rightarrow> uint32_t \<Rightarrow> world \<Rightarrow> uint32_t \<times> world" where
  "transfer32 X s d w =
     (if \<not> initialized s \<or> spi s = None then (0, w)
      else
        let w1 = beginTransaction s w;
            w2 = csLow s w1;
            (b3, w3) = SPIClass_transfer X (the (spi s)) (ucast (drop_bit 24 d AND 0xFF)) w2;
            (b2, w4) = SPIClass_transfer X (the (spi s)) (ucast (drop_bit 16 d AND 0xFF)) w3;
            (b1, w5) = SPIClass_transfer X (the (spi s)) (ucast (drop_bit 8 d AND 0xFF)) w4;
            (b0, w6) = SPIClass_transfer X (the (spi s)) (ucast (d AND 0xFF)) w5;
            w7 = csHigh s w6;
            w8 = endTransaction s w7;
            result = push_bit 24 (ucast b3) OR push_bit 16 (ucast b2)
                       OR push_bit 8 (ucast b1) OR ucast b0
        in (result, w8))"

subsection \<open>Burst transfer\<close>

text \<open>
  The body of the \<open>for\<close> loop of \<open>transferBurst\<close>, from index \<open>i\<close> on. A buffer pointer is
  \<open>None\<close> (null) or \<open>Some a\<close>, the address of its first byte; \<open>buf[i]\<close> is the byte at
  \<open>a + i\<close>.
\<close>

function burst_loop ::
    "periph \<Rightarrow> nat \<Rightarrow> nat option \<Rightarrow> nat option \<Rightarrow> nat \<Rightarrow> nat \<Rightarrow> world \<Rightarrow> world" where
  "burst_loop X sp txBuf rxBuf len i w =
     (if i < len then
        let txByte = (case txBuf of Some a \<Rightarrow> mem w (a + i) | None \<Rightarrow> 0);
            (rxByte, w1) = SPIClass_transfer X sp txByte w;
            w2 = (case rxBuf of
                    Some a \<Rightarrow> w1\<lparr>mem := (mem w1)(a + i := rxByte)\<rparr>
                  | None \<Rightarrow> w1)
        in burst_loop X sp txBuf rxBuf len (i + 1) w2
      else w)"
  by pat_completeness auto
termination
  by (relation "measure (\<lambda>(X, sp, txBuf, rxBuf, len, i, w). len - i)") auto

declare burst_loop.simps [simp del]

definition transferBurst ::
    "periph \<Rightarrow> PapilioSPI \<Rightarrow> nat option \<Rightarrow> nat option \<Rightarrow> nat \<Rightarrow> world \<Rightarrow> world" where
  "transferBurst X s txBuf rxBuf len w =
     (if \<not> initialized s \<or> spi s = None \<or> len = 0 then w
      else
        let w1 = beginTransaction s w;
            w2 = csLow s w1;
            w3 = burst_loop X (the (spi s)) txBuf rxBuf len 0 w2;
            w4 = csHigh s w3;
            w5 = endTransaction s w4
        in w5)"

subsection \<open>Configuration setters\<close>

definition setBitWidth :: "PapilioSPI \<Rightarrow> uint8_t \<Rightarrow> PapilioSPI" where
  "setBitWidth s width =
     (if width = 8 \<or> width = 16 \<or> width = 32 then s\<lparr>bitWidth := width\<rparr> else s)"

definition setSpeed :: "PapilioSPI \<Rightarrow> uint32_t \<Rightarrow> PapilioSPI" where
  "setSpeed s hz = s\<lparr>speed := hz\<rparr>"

definition setMode :: "uint8_t \<Rightarrow> PapilioSPI \<Rightarrow> uint8_t \<Rightarrow> PapilioSPI" where
  "setMode SPI_MODE3 s m = (if m \<le> SPI_MODE3 then s\<lparr>mode := m\<rparr> else s)"

subsection \<open>Status probes and FIFO helpers\<close>

definition rxAvailable :: "PapilioSPI \<Rightarrow> int" where
  "rxAvailable s = 0"

definition txReady :: "PapilioSPI \<Rightarrow> bool" where
  "txReady s = True"

definition readFifo :: "periph \<Rightarrow> PapilioSPI \<Rightarrow> world \<Rightarrow> uint8_t \<times> world" where
  "readFifo X s w = transfer8 X s 0x00 w"

definition writeFifo :: "periph \<Rightarrow> PapilioSPI \<Rightarrow> uint8_t \<Rightarrow> world \<Rightarrow> world" where
  "writeFifo X s d w = (let (r, w1) = transfer8 X s d w in w1)"

definition isReady :: "periph \<Rightarrow> PapilioSPI \<Rightarrow> world \<Rightarrow> bool \<times> world" where
  "isReady X s w =
     (if \<not> initialized s \<or> spi s = None then (False, w)
      else
        let testPattern = 0xA5;
            (response, w1) = transfer8 X s testPattern w
        in (True, w1))"

section \<open>Running the public interface\<close>

text \<open>
  One call of a public member function, and its effect on the handle and on the hardware.
  Return values are dropped here; the theorems about them use the functions themselves.
  \<open>SPI_MODE3\<close> is the platform constant \<open>setMode\<close> compares with.
\<close>

datatype call =
    Begin "nat option" int uint32_t uint8_t
  | End
  | Transfer8 uint8_t
  | Transfer16 uint16_t
  | Transfer32 uint32_t
  | TransferBurst "nat option" "nat option" nat
  | SetBitWidth uint8_t
  | SetSpeed uint32_t
  | SetMode uint8_t
  | RxAvailable
  | TxReady
  | ReadFifo
  | WriteFifo uint8_t
  | IsReady

fun invoke :: "periph \<Rightarrow> uint8_t \<Rightarrow> call \<Rightarrow> PapilioSPI \<times> world \<Rightarrow> PapilioSPI \<times> world" where
  "invoke X SPI_MODE3 (Begin sp cs_pin hz m) (s, w) = snd (PapilioSPI_begin s sp cs_pin hz m w)"
| "invoke X SPI_MODE3 End (s, w) = (PapilioSPI_end s, w)"
| "invoke X SPI_MODE3 (Transfer8 d) (s, w) = (s, snd (transfer8 X s d w))"
| "invoke X SPI_MODE3 (Transfer16 d) (s, w) = (s, snd (transfer16 X s d w))"
| "invoke X SPI_MODE3 (Transfer32 d) (s, w) = (s, snd (transfer32 X s d w))"
| "invoke X SPI_MODE3 (TransferBurst txBuf rxBuf len) (s, w) =
     (s, transferBurst X s txBuf rxBuf len w)"
| "invoke X SPI_MODE3 (SetBitWidth width) (s, w) = (setBitWidth s width, w)"
| "invoke X SPI_MODE3 (SetSpeed hz) (s, w) = (setSpeed s hz, w)"
| "invoke X SPI_MODE3 (SetMode m) (s, w) = (setMode SPI_MODE3 s m, w)"
| "invoke X SPI_MODE3 RxAvailable (s, w) = (s, w)"
| "invoke X SPI_MODE3 TxReady (s, w) = (s, w)"
| "invoke X SPI_MODE3 ReadFifo (s, w) = (s, snd (readFifo X s w))"
| "invoke X SPI_MODE3 (WriteFifo d) (s, w) = (s, writeFifo X s d w)"
| "invoke X SPI_MODE3 IsReady (s, w) = (s, snd (isReady X s w))"

text \<open>A program is a sequence of calls on one object.\<close>

fun invoke_all ::
    "periph \<Rightarrow> uint8_t \<Rightarrow> call list \<Rightarrow> PapilioSPI \<times> world \<Rightarrow> PapilioSPI \<times> world" where
  "invoke_all X SPI_MODE3 [] st = st"
| "invoke_all X SPI_MODE3 (c # rest) st = invoke_all X SPI_MODE3 rest (invoke X SPI_MODE3 c st)"

fun is_Begin :: "call \<Rightarrow> bool" where
  "is_Begin (Begin sp cs_pin hz m) = True"
| "is_Begin c = False"

section \<open>Reading the event log\<close>

text \<open>
  One transaction window of handle \<open>s\<close> on driver \<open>sp\<close>, as it appears in the log: the
  clock settings are applied, the select line goes low, one microsecond passes, the byte
  exchanges \<open>xs\<close> (sent, received) happen in order, one microsecond passes, the select
  line goes high and the driver is released.
\<close>

definition exchanges :: "nat \<Rightarrow> (uint8_t \<times> uint8_t) list \<Rightarrow> event list" where
  "exchanges sp xs = map (\<lambda>(t, r). Transfer sp t r) xs"

definition transaction :: "PapilioSPI \<Rightarrow> nat \<Rightarrow> (uint8_t \<times> uint8_t) list \<Rightarrow> event list" where
  "transaction s sp xs =
     [BeginTransaction sp (speed s) MSBFIRST (mode s), DigitalWrite (cs s) LOW,
      DelayMicroseconds 1]
     @ exchanges sp xs
     @ [DelayMicroseconds 1, DigitalWrite (cs s) HIGH, EndTransaction sp]"

text \<open>
  What one call may add to the log besides the two events of \<open>begin\<close>: nothing, or
  one whole transaction window with at least one exchange.
\<close>

definition windowed :: "PapilioSPI \<Rightarrow> event list \<Rightarrow> bool" where
  "windowed s evs \<longleftrightarrow>
     evs = [] \<or> (\<exists>sp xs. spi s = Some sp \<and> xs \<noteq> [] \<and> evs = transaction s sp xs)"

text \<open>The level a pin was last driven to, if it was driven at all.\<close>

fun drive :: "int \<Rightarrow> level option \<Rightarrow> event \<Rightarrow> level option" where
  "drive pin l (DigitalWrite q v) = (if q = pin then Some v else l)"
| "drive pin l e = l"

definition pin_level :: "int \<Rightarrow> event list \<Rightarrow> level option" where
  "pin_level pin tr = foldl (drive pin) None tr"

text \<open>The select line of a handle is idle when its pin was last driven high.\<close>

definition select_idle :: "PapilioSPI \<times> world \<Rightarrow> bool" where
  "select_idle st \<longleftrightarrow> pin_level (cs (fst st)) (trace (snd st)) = Some HIGH"

text \<open>The number of byte exchanges in a log.\<close>

fun is_Transfer :: "event \<Rightarrow> bool" where
  "is_Transfer (Transfer sp t r) = True"
| "is_Transfer e = False"

definition exchange_count :: "event list \<Rightarrow> nat" where
  "exchange_count tr = length (filter is_Transfer tr)"

section \<open>Concrete runs\<close>

text \<open>
  A peripheral wired as a plain echo, a board whose memory holds the bytes 1, 2, 3 at
  addresses 100 to 102, a handle after \<open>begin(&spi0, 5, 1000000, 1)\<close> and one after
  \<open>begin(nullptr, 5, 1000000, 0)\<close>, both called on a freshly constructed object.
\<close>

definition echo :: periph where
  "echo tr sp d = d"

definition board_mem :: "nat \<Rightarrow> uint8_t" where
  "board_mem a = (if 100 \<le> a \<and> a < 103 then of_nat (a - 99) else 0)"

definition board :: world where
  "board = \<lparr>trace = [], mem = board_mem\<rparr>"

definition begun :: "bool \<times> PapilioSPI \<times> world" where
  "begun = PapilioSPI_begin (PapilioSPI_new 0) (Some 0) 5 1000000 1 board"

definition begun_null :: "bool \<times> PapilioSPI \<times> world" where
  "begun_null = PapilioSPI_begin (PapilioSPI_new 0) None 5 1000000 0 board"

section \<open>Configuration and initialization\<close>

lemma begun_eq:
  "begun = (True,
     \<lparr>spi = Some 0, cs = 5, speed = 1000000, mode = 1, bitWidth = 8, initialized = True\<rparr>,
     \<lparr>trace = [PinMode 5 OUTPUT, DigitalWrite 5 HIGH], mem = board_mem\<rparr>)"
  by (simp add: begun_def PapilioSPI_begin_def PapilioSPI_new_def board_def pinMode_def
        digitalWrite_def)

lemma begun_null_eq:
  "begun_null = (True,
     \<lparr>spi = None, cs = 5, speed = 1000000, mode = 0, bitWidth = 8, initialized = True\<rparr>,
     \<lparr>trace = [PinMode 5 OUTPUT, DigitalWrite 5 HIGH], mem = board_mem\<rparr>)"
  by (simp add: begun_null_def PapilioSPI_begin_def PapilioSPI_new_def board_def pinMode_def
        digitalWrite_def)

text \<open>
  C8. Whatever driver reference, select pin, clock rate and clock mode are passed,
  \<open>begin\<close> returns true, and the handle it leaves has \<open>_initialized\<close> set and holds the
  four arguments, with the select pin configured as an output and driven high.
\<close>

theorem begin_always_succeeds:
  "fst (PapilioSPI_begin s sp cs_pin hz m w) = True
   \<and> initialized (fst (snd (PapilioSPI_begin s sp cs_pin hz m w)))
   \<and> fst (snd (PapilioSPI_begin s sp cs_pin hz m w))
       = \<lparr>spi = sp, cs = cs_pin, speed = hz, mode = m, bitWidth = 8, initialized = True\<rparr>
   \<and> trace (snd (snd (PapilioSPI_begin s sp cs_pin hz m w)))
       = trace w @ [PinMode cs_pin OUTPUT, DigitalWrite cs_pin HIGH]"
  by (simp add: PapilioSPI_begin_def pinMode_def digitalWrite_def)

text \<open>
  C6. \<open>setBitWidth\<close> with a width other than 8, 16 or 32 returns the handle as it was,
  and stores one of these three; \<open>setMode\<close> with a mode above \<open>SPI_MODE3\<close> returns the
  handle as it was, and stores a mode up to \<open>SPI_MODE3\<close>. Both are \<open>void\<close>: nothing
  reports the refusal, and no other field changes.
\<close>

theorem invalid_configuration_ignored:
  "(width \<noteq> 8 \<and> width \<noteq> 16 \<and> width \<noteq> 32 \<longrightarrow> setBitWidth s width = s)
   \<and> (width = 8 \<or> width = 16 \<or> width = 32 \<longrightarrow> setBitWidth s width = s\<lparr>bitWidth := width\<rparr>)
   \<and> (SPI_MODE3 < m \<longrightarrow> setMode SPI_MODE3 s m = s)
   \<and> (m \<le> SPI_MODE3 \<longrightarrow> setMode SPI_MODE3 s m = s\<lparr>mode := m\<rparr>)"
  by (simp add: setBitWidth_def setMode_def not_le)

theorem invalid_configuration_ignored_witness:
  "setBitWidth (fst (snd begun)) 12 = fst (snd begun)
   \<and> setBitWidth (fst (snd begun)) 32 = (fst (snd begun))\<lparr>bitWidth := 32\<rparr>
   \<and> setMode 3 (fst (snd begun)) 4 = fst (snd begun)
   \<and> setMode 3 (fst (snd begun)) 2 = (fst (snd begun))\<lparr>mode := 2\<rparr>"
  using invalid_configuration_ignored [of 12 "fst (snd begun)" 3 4]
    invalid_configuration_ignored [of 32 "fst (snd begun)" 3 2]
  by simp

section \<open>Status probes and FIFO helpers\<close>

lemma isReady_world: "snd (isReady X s w) = snd (transfer8 X s 0xA5 w)"
  by (simp add: isReady_def transfer8_def split_def Let_def)

text \<open>
  C7 (as amended). \<open>rxAvailable\<close> is always 0 and \<open>txReady\<close> always true. \<open>isReady\<close>
  is not one fixed value: it is false on a handle that is not initialized or has a null
  driver, and true on every other handle. None of the three results depends on what the
  peripheral answers, although \<open>isReady\<close> does exchange the byte 0xA5 with it, exactly as
  \<open>transfer8(0xA5)\<close> would.
\<close>

theorem status_probes_ignore_peripheral:
  "rxAvailable s = 0 \<and> txReady s = True
   \<and> fst (isReady X s w) = (initialized s \<and> spi s \<noteq> None)
   \<and> snd (isReady X s w) = snd (transfer8 X s 0xA5 w)"
  by (simp add: rxAvailable_def txReady_def isReady_def transfer8_def split_def Let_def)

theorem status_probes_ignore_peripheral_witness:
  "rxAvailable (fst (snd begun)) = 0 \<and> txReady (fst (snd begun)) = True
   \<and> fst (isReady echo (fst (snd begun)) (snd (snd begun))) = True
   \<and> fst (isReady echo (fst (snd begun_null)) (snd (snd begun_null))) = False"
  using status_probes_ignore_peripheral [of "fst (snd begun)" echo "snd (snd begun)"]
    status_probes_ignore_peripheral [of "fst (snd begun_null)" echo "snd (snd begun_null)"]
  by (simp add: begun_eq begun_null_eq)

text \<open>
  C7 as first stated fails: a freshly constructed handle answers false, a handle after
  \<open>begin(&spi0, 5, 1000000, 1)\<close> answers true.
\<close>

theorem isReady_not_constant_counterexample:
  "fst (isReady echo (PapilioSPI_new 0) board) = False
   \<and> fst (isReady echo (fst (snd begun)) (snd (snd begun))) = True"
  by (simp add: begun_eq isReady_def PapilioSPI_new_def split_def Let_def)

text \<open>
  C10. \<open>readFifo()\<close> is \<open>transfer8(0x00)\<close>: same byte returned, same effect on the
  hardware. \<open>writeFifo(d)\<close> has the effect of \<open>transfer8(d)\<close> and drops the byte it
  returns. Neither touches the handle.
\<close>

theorem fifo_helpers_are_transfer8:
  "readFifo X s w = transfer8 X s 0 w
   \<and> writeFifo X s d w = snd (transfer8 X s d w)
   \<and> invoke X SPI_MODE3 ReadFifo (s, w) = invoke X SPI_MODE3 (Transfer8 0) (s, w)
   \<and> invoke X SPI_MODE3 (WriteFifo d) (s, w) = invoke X SPI_MODE3 (Transfer8 d) (s, w)"
  by (simp add: readFifo_def writeFifo_def split_def)

theorem fifo_helpers_are_transfer8_witness:
  "readFifo echo (fst (snd begun)) (snd (snd begun))
     = transfer8 echo (fst (snd begun)) 0 (snd (snd begun))
   \<and> fst (readFifo echo (fst (snd begun)) (snd (snd begun))) = 0
   \<and> trace (writeFifo echo (fst (snd begun)) 0x5A (snd (snd begun)))
       = [PinMode 5 OUTPUT, DigitalWrite 5 HIGH,
          BeginTransaction 0 1000000 MSBFIRST 1, DigitalWrite 5 LOW, DelayMicroseconds 1,
          Transfer 0 0x5A 0x5A,
          DelayMicroseconds 1, DigitalWrite 5 HIGH, EndTransaction 0]"
proof -
  have "fst (transfer8 echo (fst (snd begun)) 0 (snd (snd begun))) = 0"
    by (simp add: begun_eq transfer8_def split_def Let_def SPIClass_transfer_def echo_def)
  moreover have "trace (snd (transfer8 echo (fst (snd begun)) 0x5A (snd (snd begun))))
       = [PinMode 5 OUTPUT, DigitalWrite 5 HIGH,
          BeginTransaction 0 1000000 MSBFIRST 1, DigitalWrite 5 LOW, DelayMicroseconds 1,
          Transfer 0 0x5A 0x5A,
          DelayMicroseconds 1, DigitalWrite 5 HIGH, EndTransaction 0]"
    by (simp add: begun_eq transfer8_def split_def Let_def SPIClass_transfer_def echo_def
          beginTransaction_def endTransaction_def csLow_def csHigh_def
          SPIClass_beginTransaction_def SPIClass_endTransaction_def digitalWrite_def
          delayMicroseconds_def)
  ultimately show ?thesis
    using fifo_helpers_are_transfer8 [of echo "fst (snd begun)" "snd (snd begun)" "0x5A" 3]
    by simp
qed

section \<open>Transfers that are refused\<close>

text \<open>
  C2. On a handle whose \<open>_initialized\<close> flag is clear (a fresh object, or any handle
  after \<open>end()\<close>), \<open>transfer8\<close>, \<open>transfer16\<close> and \<open>transfer32\<close> return 0 and
  \<open>transferBurst\<close> returns, all of them leaving the event log and the memory, hence the
  receive buffer, exactly as they were.
\<close>

theorem uninitialized_transfers_do_nothing:
  assumes "\<not> initialized s"
  shows "transfer8 X s d8 w = (0, w) \<and> transfer16 X s d16 w = (0, w)
       \<and> transfer32 X s d32 w = (0, w) \<and> transferBurst X s txBuf rxBuf len w = w"
  using assms by (simp add: transfer8_def transfer16_def transfer32_def transferBurst_def)

theorem uninitialized_transfers_do_nothing_witness:
  "\<not> initialized (PapilioSPI_new 0)
   \<and> \<not> initialized (PapilioSPI_end (fst (snd begun)))
   \<and> transfer8 echo (PapilioSPI_new 0) 0x5A board = (0, board)
   \<and> transfer32 echo (PapilioSPI_end (fst (snd begun))) 0xDEADBEEF (snd (snd begun))
       = (0, snd (snd begun))
   \<and> transferBurst echo (PapilioSPI_end (fst (snd begun))) (Some 100) (Some 101) 3 board = board"
proof -
  have h1: "\<not> initialized (PapilioSPI_new 0)" by (simp add: PapilioSPI_new_def)
  have h2: "\<not> initialized (PapilioSPI_end (fst (snd begun)))" by (simp add: PapilioSPI_end_def)
  show ?thesis
    using h1 h2 uninitialized_transfers_do_nothing [OF h1, of echo "0x5A" board]
      uninitialized_transfers_do_nothing [OF h2, of echo _ "snd (snd begun)" _ "0xDEADBEEF"]
      uninitialized_transfers_do_nothing [OF h2, of echo _ board _ _ "Some 100" "Some 101" 3]
    by simp
qed

text \<open>
  C5. A burst of length 0 changes nothing, whatever the handle and the buffers: no event
  is logged (no clock settings applied, no select-line edge, no exchange) and no byte of
  memory is written.
\<close>

theorem empty_burst_is_noop: "transferBurst X s txBuf rxBuf 0 w = w"
  by (simp add: transferBurst_def)

theorem empty_burst_is_noop_witness:
  "transferBurst echo (fst (snd begun)) (Some 100) (Some 200) 0 (snd (snd begun))
     = snd (snd begun)
   \<and> trace (transferBurst echo (fst (snd begun)) (Some 100) (Some 200) 0 (snd (snd begun)))
     = [PinMode 5 OUTPUT, DigitalWrite 5 HIGH]"
  using empty_burst_is_noop [of echo "fst (snd begun)" "Some 100" "Some 200" "snd (snd begun)"]
  by (simp add: begun_eq)

section \<open>Word transfers\<close>

subsection \<open>Bytes of a word\<close>

lemma byte_mask32: "(0xFF :: 32 word) = mask 8"
  by (simp add: mask_eq_decr_exp)

lemma byte_mask16: "(0xFF :: 16 word) = mask 8"
  by (simp add: mask_eq_decr_exp)

lemma sent_byte32: "(ucast (drop_bit n (v :: 32 word) AND 0xFF) :: 8 word) = ucast (drop_bit n v)"
  unfolding byte_mask32 by (rule bit_word_eqI) (auto simp: bit_simps)

lemma sent_low32: "(ucast ((v :: 32 word) AND 0xFF) :: 8 word) = ucast v"
  unfolding byte_mask32 by (rule bit_word_eqI) (auto simp: bit_simps)

lemma sent_byte16: "(ucast (drop_bit n (v :: 16 word) AND 0xFF) :: 8 word) = ucast (drop_bit n v)"
  unfolding byte_mask16 by (rule bit_word_eqI) (auto simp: bit_simps)

lemma sent_low16: "(ucast ((v :: 16 word) AND 0xFF) :: 8 word) = ucast v"
  unfolding byte_mask16 by (rule bit_word_eqI) (auto simp: bit_simps)

lemma unat_byte32: "unat (ucast (drop_bit n (v :: 32 word)) :: 8 word) = unat v div 2 ^ n mod 256"
  by (simp only: unsigned_ucast_eq unat_drop_bit_eq) (simp add: take_bit_eq_mod drop_bit_eq_div)

lemma unat_low32: "unat (ucast (v :: 32 word) :: 8 word) = unat v mod 256"
  by (simp only: unsigned_ucast_eq) (simp add: take_bit_eq_mod)

lemma unat_byte16: "unat (ucast (drop_bit n (v :: 16 word)) :: 8 word) = unat v div 2 ^ n mod 256"
  by (simp only: unsigned_ucast_eq unat_drop_bit_eq) (simp add: take_bit_eq_mod drop_bit_eq_div)

lemma unat_low16: "unat (ucast (v :: 16 word) :: 8 word) = unat v mod 256"
  by (simp only: unsigned_ucast_eq) (simp add: take_bit_eq_mod)

lemma or_is_add: "b < 2 ^ n \<Longrightarrow> push_bit n a OR b = a * 2 ^ n + (b :: nat)"
proof -
  assume "b < 2 ^ n"
  then have tb: "take_bit n b = b"
    by (simp add: take_bit_nat_eq_self_iff)
  have "push_bit n a + b = push_bit n a OR b"
  proof (rule disjunctive_add)
    fix k
    show "\<not> bit (push_bit n a) k \<or> \<not> bit b k"
      using bit_take_bit_iff [of n b k] tb by (auto simp: bit_push_bit_iff)
  qed
  then show ?thesis
    by (simp add: push_bit_eq_mult)
qed

lemma unat_byte_less: "unat (b :: 8 word) < 256"
  using unsigned_less [of b] by simp

lemma unat_assemble32:
  "unat (push_bit 24 (ucast (b3 :: 8 word)) OR push_bit 16 (ucast (b2 :: 8 word))
          OR push_bit 8 (ucast (b1 :: 8 word)) OR ucast (b0 :: 8 word) :: 32 word)
   = unat b3 * 2 ^ 24 + unat b2 * 2 ^ 16 + unat b1 * 2 ^ 8 + unat b0"
proof -
  note l = unat_byte_less [of b3] unat_byte_less [of b2] unat_byte_less [of b1]
    unat_byte_less [of b0]
  have tb: "take_bit 32 (unat b) = unat b" for b :: "8 word"
    using unat_byte_less [of b] by (simp add: take_bit_nat_eq_self_iff)
  have t: "take_bit 32 (push_bit 24 (unat b3)) = push_bit 24 (unat b3)"
    "take_bit 32 (push_bit 16 (unat b2)) = push_bit 16 (unat b2)"
    "take_bit 32 (push_bit 8 (unat b1)) = push_bit 8 (unat b1)"
    using l by (simp_all add: take_bit_nat_eq_self_iff push_bit_eq_mult)
  have e: "unat (push_bit 24 (ucast b3) OR push_bit 16 (ucast b2)
                  OR push_bit 8 (ucast b1) OR ucast b0 :: 32 word)
           = push_bit 24 (unat b3) OR push_bit 16 (unat b2) OR push_bit 8 (unat b1) OR unat b0"
    by (simp only: unsigned_or_eq unsigned_push_bit_eq unsigned_ucast_eq) (simp add: tb t)
  have s1: "push_bit 8 (unat b1) OR unat b0 = unat b1 * 2 ^ 8 + unat b0"
    using l by (simp add: or_is_add)
  have s2: "push_bit 16 (unat b2) OR (unat b1 * 2 ^ 8 + unat b0)
            = unat b2 * 2 ^ 16 + (unat b1 * 2 ^ 8 + unat b0)"
    using l by (intro or_is_add) simp
  have s3: "push_bit 24 (unat b3) OR (unat b2 * 2 ^ 16 + (unat b1 * 2 ^ 8 + unat b0))
            = unat b3 * 2 ^ 24 + (unat b2 * 2 ^ 16 + (unat b1 * 2 ^ 8 + unat b0))"
    using l by (intro or_is_add) simp
  show ?thesis
    unfolding e using s1 s2 s3 by (simp add: or.assoc)
qed

lemma unat_assemble16:
  "unat (push_bit 8 (ucast (high :: 8 word)) OR ucast (low :: 8 word) :: 16 word)
   = unat high * 2 ^ 8 + unat low"
proof -
  note l = unat_byte_less [of high] unat_byte_less [of low]
  have tb: "take_bit 16 (unat b) = unat b" for b :: "8 word"
    using unat_byte_less [of b] by (simp add: take_bit_nat_eq_self_iff)
  have t: "take_bit 16 (push_bit 8 (unat high)) = push_bit 8 (unat high)"
    using l by (simp add: take_bit_nat_eq_self_iff push_bit_eq_mult)
  have "unat (push_bit 8 (ucast high) OR ucast low :: 16 word)
        = push_bit 8 (unat high) OR unat low"
    by (simp only: unsigned_or_eq unsigned_push_bit_eq unsigned_ucast_eq) (simp add: tb t)
  then show ?thesis
    using l by (simp add: or_is_add)
qed

lemma reassemble32:
  "push_bit 24 (ucast (ucast (drop_bit 24 (v :: 32 word)) :: 8 word))
     OR push_bit 16 (ucast (ucast (drop_bit 16 v) :: 8 word))
     OR push_bit 8 (ucast (ucast (drop_bit 8 v) :: 8 word))
     OR ucast (ucast v :: 8 word) = v"
proof (rule bit_word_eqI)
  fix n :: nat
  assume "n < LENGTH(32)"
  then have n: "n < 32" by simp
  consider "n < 8" | "8 \<le> n" "n < 16" | "16 \<le> n" "n < 24" | "24 \<le> n"
    by linarith
  then show "bit (push_bit 24 (ucast (ucast (drop_bit 24 v) :: 8 word))
     OR push_bit 16 (ucast (ucast (drop_bit 16 v) :: 8 word))
     OR push_bit 8 (ucast (ucast (drop_bit 8 v) :: 8 word))
     OR ucast (ucast v :: 8 word) :: 32 word) n = bit v n"
  proof cases
    case 1
    then show ?thesis by (simp add: bit_simps)
  next
    case 2
    then show ?thesis using n by (auto simp: bit_simps)
  next
    case 3
    then show ?thesis using n by (auto simp: bit_simps)
  next
    case 4
    then show ?thesis using n by (auto simp: bit_simps)
  qed
qed

lemma reassemble16:
  "push_bit 8 (ucast (ucast (drop_bit 8 (v :: 16 word)) :: 8 word)) OR ucast (ucast v :: 8 word) = v"
  by (rule bit_word_eqI) (auto simp: bit_simps)

subsection \<open>The word transfers, unfolded\<close>

lemma transfer32_run:
  assumes "initialized s" and "spi s = Some sp"
  shows "transfer32 X s v w =
    (let t3 = ucast (drop_bit 24 v); t2 = ucast (drop_bit 16 v); t1 = ucast (drop_bit 8 v);
         t0 = ucast v;
         h0 = trace w @ [BeginTransaction sp (speed s) MSBFIRST (mode s),
                DigitalWrite (cs s) LOW, DelayMicroseconds 1];
         r3 = X h0 sp t3; h1 = h0 @ [Transfer sp t3 r3];
         r2 = X h1 sp t2; h2 = h1 @ [Transfer sp t2 r2];
         r1 = X h2 sp t1; h3 = h2 @ [Transfer sp t1 r1];
         r0 = X h3 sp t0
     in (push_bit 24 (ucast r3) OR push_bit 16 (ucast r2) OR push_bit 8 (ucast r1) OR ucast r0,
         w\<lparr>trace := trace w @ transaction s sp [(t3, r3), (t2, r2), (t1, r1), (t0, r0)]\<rparr>))"
  using assms
  by (simp add: transfer32_def beginTransaction_def endTransaction_def csLow_def csHigh_def
        SPIClass_beginTransaction_def SPIClass_endTransaction_def SPIClass_transfer_def
        digitalWrite_def delayMicroseconds_def transaction_def exchanges_def Let_def
        sent_byte32 sent_low32)

lemma transfer16_run:
  assumes "initialized s" and "spi s = Some sp"
  shows "transfer16 X s v w =
    (let t1 = ucast (drop_bit 8 v); t0 = ucast v;
         h0 = trace w @ [BeginTransaction sp (speed s) MSBFIRST (mode s),
                DigitalWrite (cs s) LOW, DelayMicroseconds 1];
         r1 = X h0 sp t1; h1 = h0 @ [Transfer sp t1 r1];
         r0 = X h1 sp t0
     in (push_bit 8 (ucast r1) OR ucast r0,
         w\<lparr>trace := trace w @ transaction s sp [(t1, r1), (t0, r0)]\<rparr>))"
  using assms
  by (simp add: transfer16_def beginTransaction_def endTransaction_def csLow_def csHigh_def
        SPIClass_beginTransaction_def SPIClass_endTransaction_def SPIClass_transfer_def
        digitalWrite_def delayMicroseconds_def transaction_def exchanges_def Let_def
        sent_byte16 sent_low16)

lemma transfer8_run:
  assumes "initialized s" and "spi s = Some sp"
  shows "transfer8 X s v w =
    (let h0 = trace w @ [BeginTransaction sp (speed s) MSBFIRST (mode s),
                DigitalWrite (cs s) LOW, DelayMicroseconds 1];
         r0 = X h0 sp v
     in (r0, w\<lparr>trace := trace w @ transaction s sp [(v, r0)]\<rparr>))"
  using assms
  by (simp add: transfer8_def beginTransaction_def endTransaction_def csLow_def csHigh_def
        SPIClass_beginTransaction_def SPIClass_endTransaction_def SPIClass_transfer_def
        digitalWrite_def delayMicroseconds_def transaction_def exchanges_def Let_def)

lemma transfer32_shape:
  assumes "initialized s" and "spi s = Some sp"
  shows "\<exists>r3 r2 r1 r0.
           transfer32 X s v w =
             (push_bit 24 (ucast r3) OR push_bit 16 (ucast r2) OR push_bit 8 (ucast r1) OR ucast r0,
              w\<lparr>trace := trace w @ transaction s sp
                   [(ucast (drop_bit 24 v), r3), (ucast (drop_bit 16 v), r2),
                    (ucast (drop_bit 8 v), r1), (ucast v, r0)]\<rparr>)
         \<and> ((\<forall>tr d. X tr sp d = d) \<longrightarrow>
               r3 = ucast (drop_bit 24 v) \<and> r2 = ucast (drop_bit 16 v)
               \<and> r1 = ucast (drop_bit 8 v) \<and> r0 = ucast v)"
proof -
  define h0 where "h0 = trace w @ [BeginTransaction sp (speed s) MSBFIRST (mode s),
                DigitalWrite (cs s) LOW, DelayMicroseconds 1]"
  define r3 where "r3 = X h0 sp (ucast (drop_bit 24 v))"
  define h1 where "h1 = h0 @ [Transfer sp (ucast (drop_bit 24 v)) r3]"
  define r2 where "r2 = X h1 sp (ucast (drop_bit 16 v))"
  define h2 where "h2 = h1 @ [Transfer sp (ucast (drop_bit 16 v)) r2]"
  define r1 where "r1 = X h2 sp (ucast (drop_bit 8 v))"
  define h3 where "h3 = h2 @ [Transfer sp (ucast (drop_bit 8 v)) r1]"
  define r0 where "r0 = X h3 sp (ucast v)"
  have "transfer32 X s v w =
             (push_bit 24 (ucast r3) OR push_bit 16 (ucast r2) OR push_bit 8 (ucast r1) OR ucast r0,
              w\<lparr>trace := trace w @ transaction s sp
                   [(ucast (drop_bit 24 v), r3), (ucast (drop_bit 16 v), r2),
                    (ucast (drop_bit 8 v), r1), (ucast v, r0)]\<rparr>)"
    unfolding transfer32_run [OF assms] Let_def r0_def h3_def r1_def h2_def r2_def h1_def r3_def
      h0_def ..
  moreover have "(\<forall>tr d. X tr sp d = d) \<longrightarrow>
               r3 = ucast (drop_bit 24 v) \<and> r2 = ucast (drop_bit 16 v)
               \<and> r1 = ucast (drop_bit 8 v) \<and> r0 = ucast v"
    by (simp add: r0_def r1_def r2_def r3_def)
  ultimately show ?thesis
    by blast
qed

lemma transfer16_shape:
  assumes "initialized s" and "spi s = Some sp"
  shows "\<exists>r1 r0.
           transfer16 X s v w =
             (push_bit 8 (ucast r1) OR ucast r0,
              w\<lparr>trace := trace w @ transaction s sp
                   [(ucast (drop_bit 8 v), r1), (ucast v, r0)]\<rparr>)
         \<and> ((\<forall>tr d. X tr sp d = d) \<longrightarrow> r1 = ucast (drop_bit 8 v) \<and> r0 = ucast v)"
proof -
  define h0 where "h0 = trace w @ [BeginTransaction sp (speed s) MSBFIRST (mode s),
                DigitalWrite (cs s) LOW, DelayMicroseconds 1]"
  define r1 where "r1 = X h0 sp (ucast (drop_bit 8 v))"
  define h1 where "h1 = h0 @ [Transfer sp (ucast (drop_bit 8 v)) r1]"
  define r0 where "r0 = X h1 sp (ucast v)"
  have "transfer16 X s v w =
             (push_bit 8 (ucast r1) OR ucast r0,
              w\<lparr>trace := trace w @ transaction s sp
                   [(ucast (drop_bit 8 v), r1), (ucast v, r0)]\<rparr>)"
    unfolding transfer16_run [OF assms] Let_def r0_def h1_def r1_def h0_def ..
  moreover have "(\<forall>tr d. X tr sp d = d) \<longrightarrow> r1 = ucast (drop_bit 8 v) \<and> r0 = ucast v"
    by (simp add: r0_def r1_def)
  ultimately show ?thesis
    by blast
qed

text \<open>
  C1 (as amended). On a handle that is initialized and whose driver pointer is not null,
  \<open>transfer32(v)\<close> logs exactly one transaction window holding four exchanges. The bytes
  sent are, in this order, bits 31-24, 23-16, 15-8 and 7-0 of \<open>v\<close>; the value returned
  is the four received bytes put together in the same order, most significant first; no
  memory is written. If the peripheral echoes every byte it is sent, the value returned is
  \<open>v\<close>. The same holds for \<open>transfer16\<close> with its two bytes.
\<close>

theorem word_transfers_msb_first:
  assumes "initialized s" and "spi s = Some sp"
  shows "(\<exists>t3 t2 t1 t0 r3 r2 r1 r0.
            trace (snd (transfer32 X s v w))
              = trace w @ transaction s sp [(t3, r3), (t2, r2), (t1, r1), (t0, r0)]
          \<and> unat t3 = unat v div 2 ^ 24 mod 256 \<and> unat t2 = unat v div 2 ^ 16 mod 256
          \<and> unat t1 = unat v div 2 ^ 8 mod 256 \<and> unat t0 = unat v mod 256
          \<and> unat (fst (transfer32 X s v w))
              = unat r3 * 2 ^ 24 + unat r2 * 2 ^ 16 + unat r1 * 2 ^ 8 + unat r0
          \<and> mem (snd (transfer32 X s v w)) = mem w
          \<and> ((\<forall>tr d. X tr sp d = d) \<longrightarrow> fst (transfer32 X s v w) = v))
       \<and> (\<exists>t1 t0 r1 r0.
            trace (snd (transfer16 X s u w)) = trace w @ transaction s sp [(t1, r1), (t0, r0)]
          \<and> unat t1 = unat u div 2 ^ 8 mod 256 \<and> unat t0 = unat u mod 256
          \<and> unat (fst (transfer16 X s u w)) = unat r1 * 2 ^ 8 + unat r0
          \<and> mem (snd (transfer16 X s u w)) = mem w
          \<and> ((\<forall>tr d. X tr sp d = d) \<longrightarrow> fst (transfer16 X s u w) = u))"
proof (rule conjI)
  from transfer32_shape [OF assms, of X v w] obtain r3 r2 r1 r0 where
    run: "transfer32 X s v w =
             (push_bit 24 (ucast r3) OR push_bit 16 (ucast r2) OR push_bit 8 (ucast r1) OR ucast r0,
              w\<lparr>trace := trace w @ transaction s sp
                   [(ucast (drop_bit 24 v), r3), (ucast (drop_bit 16 v), r2),
                    (ucast (drop_bit 8 v), r1), (ucast v, r0)]\<rparr>)"
    and echo: "(\<forall>tr d. X tr sp d = d) \<longrightarrow>
               r3 = ucast (drop_bit 24 v) \<and> r2 = ucast (drop_bit 16 v)
               \<and> r1 = ucast (drop_bit 8 v) \<and> r0 = ucast v"
    by blast
  have ec: "(\<forall>tr d. X tr sp d = d) \<longrightarrow> fst (transfer32 X s v w) = v"
    using echo by (auto simp: run reassemble32)
  show "\<exists>t3 t2 t1 t0 r3 r2 r1 r0.
            trace (snd (transfer32 X s v w))
              = trace w @ transaction s sp [(t3, r3), (t2, r2), (t1, r1), (t0, r0)]
          \<and> unat t3 = unat v div 2 ^ 24 mod 256 \<and> unat t2 = unat v div 2 ^ 16 mod 256
          \<and> unat t1 = unat v div 2 ^ 8 mod 256 \<and> unat t0 = unat v mod 256
          \<and> unat (fst (transfer32 X s v w))
              = unat r3 * 2 ^ 24 + unat r2 * 2 ^ 16 + unat r1 * 2 ^ 8 + unat r0
          \<and> mem (snd (transfer32 X s v w)) = mem w
          \<and> ((\<forall>tr d. X tr sp d = d) \<longrightarrow> fst (transfer32 X s v w) = v)"
    apply (rule exI [of _ "ucast (drop_bit 24 v)"], rule exI [of _ "ucast (drop_bit 16 v)"])
    apply (rule exI [of _ "ucast (drop_bit 8 v)"], rule exI [of _ "ucast v"])
    apply (rule exI [of _ r3], rule exI [of _ r2], rule exI [of _ r1], rule exI [of _ r0])
    apply (intro conjI)
           apply (simp add: run)
          apply (rule unat_byte32)
         apply (rule unat_byte32)
        apply (rule unat_byte32)
       apply (rule unat_low32)
      apply (simp only: run fst_conv unat_assemble32)
     apply (simp add: run)
    apply (rule ec)
    done
next
  from transfer16_shape [OF assms, of X u w] obtain r1 r0 where
    run: "transfer16 X s u w =
             (push_bit 8 (ucast r1) OR ucast r0,
              w\<lparr>trace := trace w @ transaction s sp
                   [(ucast (drop_bit 8 u), r1), (ucast u, r0)]\<rparr>)"
    and echo: "(\<forall>tr d. X tr sp d = d) \<longrightarrow> r1 = ucast (drop_bit 8 u) \<and> r0 = ucast u"
    by blast
  have ec: "(\<forall>tr d. X tr sp d = d) \<longrightarrow> fst (transfer16 X s u w) = u"
    using echo by (auto simp: run reassemble16)
  show "\<exists>t1 t0 r1 r0.
            trace (snd (transfer16 X s u w)) = trace w @ transaction s sp [(t1, r1), (t0, r0)]
          \<and> unat t1 = unat u div 2 ^ 8 mod 256 \<and> unat t0 = unat u mod 256
          \<and> unat (fst (transfer16 X s u w)) = unat r1 * 2 ^ 8 + unat r0
          \<and> mem (snd (transfer16 X s u w)) = mem w
          \<and> ((\<forall>tr d. X tr sp d = d) \<longrightarrow> fst (transfer16 X s u w) = u)"
    apply (rule exI [of _ "ucast (drop_bit 8 u)"], rule exI [of _ "ucast u"])
    apply (rule exI [of _ r1], rule exI [of _ r0])
    apply (intro conjI)
         apply (simp add: run)
        apply (rule unat_byte16)
       apply (rule unat_low16)
      apply (simp only: run fst_conv unat_assemble16)
     apply (simp add: run)
    apply (rule ec)
    done
qed

theorem word_transfers_msb_first_witness:
  "initialized (fst (snd begun)) \<and> spi (fst (snd begun)) = Some 0
   \<and> fst (transfer32 echo (fst (snd begun)) 0xDEADBEEF (snd (snd begun))) = 0xDEADBEEF
   \<and> fst (transfer16 echo (fst (snd begun)) 0xBEEF (snd (snd begun))) = 0xBEEF
   \<and> trace (snd (transfer32 echo (fst (snd begun)) 0xDEADBEEF (snd (snd begun))))
       = [PinMode 5 OUTPUT, DigitalWrite 5 HIGH,
          BeginTransaction 0 1000000 MSBFIRST 1, DigitalWrite 5 LOW, DelayMicroseconds 1,
          Transfer 0 0xDE 0xDE, Transfer 0 0xAD 0xAD, Transfer 0 0xBE 0xBE, Transfer 0 0xEF 0xEF,
          DelayMicroseconds 1, DigitalWrite 5 HIGH, EndTransaction 0]"
proof -
  have h1: "initialized (fst (snd begun))" and h2: "spi (fst (snd begun)) = Some 0"
    by (simp_all add: begun_eq)
  have h3: "\<forall>tr d. echo tr 0 d = d"
    by (simp add: echo_def)
  have "fst (transfer32 echo (fst (snd begun)) 0xDEADBEEF (snd (snd begun))) = 0xDEADBEEF"
    and "fst (transfer16 echo (fst (snd begun)) 0xBEEF (snd (snd begun))) = 0xBEEF"
    using word_transfers_msb_first [OF h1 h2, of echo "0xDEADBEEF" "snd (snd begun)" "0xBEEF"] h3
    by blast+
  moreover have "trace (snd (transfer32 echo (fst (snd begun)) 0xDEADBEEF (snd (snd begun))))
       = [PinMode 5 OUTPUT, DigitalWrite 5 HIGH,
          BeginTransaction 0 1000000 MSBFIRST 1, DigitalWrite 5 LOW, DelayMicroseconds 1,
          Transfer 0 0xDE 0xDE, Transfer 0 0xAD 0xAD, Transfer 0 0xBE 0xBE, Transfer 0 0xEF 0xEF,
          DelayMicroseconds 1, DigitalWrite 5 HIGH, EndTransaction 0]"
    by (simp add: transfer32_run [OF h1 h2] Let_def transaction_def exchanges_def echo_def)
       (simp add: begun_eq)
  ultimately show ?thesis
    using h1 h2 by simp
qed

text \<open>
  C1 as first stated, for every initialized handle, fails: \<open>begin(nullptr, 5, 1000000, 0)\<close>
  returns true and sets \<open>_initialized\<close>, and \<open>transfer32(0xDEADBEEF)\<close> on that handle
  returns 0 without a single exchange, even on an echoing peripheral.
\<close>

theorem word_transfer_null_driver_counterexample:
  "fst begun_null = True \<and> initialized (fst (snd begun_null))
   \<and> fst (transfer32 echo (fst (snd begun_null)) 0xDEADBEEF (snd (snd begun_null))) = 0
   \<and> exchange_count
        (trace (snd (transfer32 echo (fst (snd begun_null)) 0xDEADBEEF (snd (snd begun_null)))))
      = 0"
  by (simp add: begun_null_eq transfer32_def exchange_count_def)

section \<open>Burst transfers\<close>

lemma burst_loop_done: "\<not> i < len \<Longrightarrow> burst_loop X sp txBuf rxBuf len i w = w"
  by (subst burst_loop.simps) simp

lemma burst_loop_spec:
  "i \<le> len \<Longrightarrow>
   \<exists>xs. length xs = len - i
      \<and> trace (burst_loop X sp txBuf rxBuf len i w) = trace w @ exchanges sp xs
      \<and> (txBuf = None \<longrightarrow> map fst xs = replicate (len - i) 0)
      \<and> (rxBuf = None \<longrightarrow> mem (burst_loop X sp txBuf rxBuf len i w) = mem w)
      \<and> (\<forall>a. rxBuf = Some a \<longrightarrow>
            (\<forall>k<len - i. mem (burst_loop X sp txBuf rxBuf len i w) (a + i + k) = snd (xs ! k))
          \<and> (\<forall>p. p < a + i \<or> a + len \<le> p \<longrightarrow>
                 mem (burst_loop X sp txBuf rxBuf len i w) p = mem w p))
      \<and> (\<forall>t. txBuf = Some t \<and> (\<forall>a. rxBuf = Some a \<longrightarrow> a \<le> t \<or> t + len \<le> a) \<longrightarrow>
            (\<forall>k<len - i. fst (xs ! k) = mem w (t + i + k)))"
proof (induction X sp txBuf rxBuf len i w rule: burst_loop.induct)
  case (1 X sp txBuf rxBuf len i w)
  show ?case
  proof (cases "i < len")
    case False
    then show ?thesis
      by (simp add: burst_loop_done exchanges_def)
  next
    case True
    define t where "t = (case txBuf of Some a \<Rightarrow> mem w (a + i) | None \<Rightarrow> 0)"
    define r where "r = X (trace w) sp t"
    define w1 where "w1 = w\<lparr>trace := trace w @ [Transfer sp t r]\<rparr>"
    define w2 where "w2 = (case rxBuf of Some a \<Rightarrow> w1\<lparr>mem := (mem w1)(a + i := r)\<rparr> | None \<Rightarrow> w1)"
    have st: "SPIClass_transfer X sp t w = (r, w1)"
      by (simp add: SPIClass_transfer_def r_def w1_def Let_def)
    have step: "burst_loop X sp txBuf rxBuf len i w = burst_loop X sp txBuf rxBuf len (i + 1) w2"
      using True by (subst burst_loop.simps) (simp add: st w2_def flip: t_def)
    have "i + 1 \<le> len" using True by simp
    from "1.IH" [OF True t_def st [symmetric] refl w2_def this]
    obtain xs where
      len: "length xs = len - (i + 1)"
      and tr: "trace (burst_loop X sp txBuf rxBuf len (i + 1) w2) = trace w2 @ exchanges sp xs"
      and tx: "txBuf = None \<longrightarrow> map fst xs = replicate (len - (i + 1)) 0"
      and rx0: "rxBuf = None \<longrightarrow> mem (burst_loop X sp txBuf rxBuf len (i + 1) w2) = mem w2"
      and rx1: "\<forall>a. rxBuf = Some a \<longrightarrow>
            (\<forall>k<len - (i + 1).
                mem (burst_loop X sp txBuf rxBuf len (i + 1) w2) (a + (i + 1) + k) = snd (xs ! k))
          \<and> (\<forall>p. p < a + (i + 1) \<or> a + len \<le> p \<longrightarrow>
                 mem (burst_loop X sp txBuf rxBuf len (i + 1) w2) p = mem w2 p)"
      and snt: "\<forall>t. txBuf = Some t \<and> (\<forall>a. rxBuf = Some a \<longrightarrow> a \<le> t \<or> t + len \<le> a) \<longrightarrow>
            (\<forall>k<len - (i + 1). fst (xs ! k) = mem w2 (t + (i + 1) + k))"
      by blast
    have trw2: "trace w2 = trace w @ [Transfer sp t r]"
      by (simp add: w2_def w1_def split: option.splits)
    have memw2: "mem w2 = (case rxBuf of Some a \<Rightarrow> (mem w)(a + i := r) | None \<Rightarrow> mem w)"
      by (simp add: w2_def w1_def split: option.splits)
    let ?ys = "(t, r) # xs"
    have c1: "length ?ys = len - i"
      using True len by simp
    have c2: "trace (burst_loop X sp txBuf rxBuf len i w) = trace w @ exchanges sp ?ys"
      using tr step by (simp add: trw2 exchanges_def)
    have c3: "txBuf = None \<longrightarrow> map fst ?ys = replicate (len - i) 0"
    proof
      assume n: "txBuf = None"
      have "len - i = Suc (len - (i + 1))" using True by simp
      then show "map fst ?ys = replicate (len - i) 0"
        using tx n by (simp add: t_def)
    qed
    have c4: "rxBuf = None \<longrightarrow> mem (burst_loop X sp txBuf rxBuf len i w) = mem w"
      using rx0 step by (auto simp: memw2)
    have c5: "\<forall>a. rxBuf = Some a \<longrightarrow>
            (\<forall>k<len - i. mem (burst_loop X sp txBuf rxBuf len i w) (a + i + k) = snd (?ys ! k))
          \<and> (\<forall>p. p < a + i \<or> a + len \<le> p \<longrightarrow>
                 mem (burst_loop X sp txBuf rxBuf len i w) p = mem w p)"
    proof (intro allI impI conjI)
      fix a k
      assume a: "rxBuf = Some a" and k: "k < len - i"
      show "mem (burst_loop X sp txBuf rxBuf len i w) (a + i + k) = snd (?ys ! k)"
      proof (cases k)
        case 0
        have "mem (burst_loop X sp txBuf rxBuf len (i + 1) w2) (a + i) = mem w2 (a + i)"
          using rx1 a by simp
        then show ?thesis
          using 0 a step by (simp add: memw2)
      next
        case (Suc k')
        then have "k' < len - (i + 1)" using k by simp
        then have "mem (burst_loop X sp txBuf rxBuf len (i + 1) w2) (a + (i + 1) + k') = snd (xs ! k')"
          using rx1 a by blast
        then show ?thesis
          using Suc step by simp
      qed
    next
      fix a p
      assume a: "rxBuf = Some a" and p: "p < a + i \<or> a + len \<le> p"
      then have "p < a + (i + 1) \<or> a + len \<le> p" by auto
      then have "mem (burst_loop X sp txBuf rxBuf len (i + 1) w2) p = mem w2 p"
        using rx1 a by blast
      moreover have "p \<noteq> a + i" using p True by auto
      ultimately show "mem (burst_loop X sp txBuf rxBuf len i w) p = mem w p"
        using a step by (simp add: memw2)
    qed
    have c6: "\<forall>b. txBuf = Some b \<and> (\<forall>a. rxBuf = Some a \<longrightarrow> a \<le> b \<or> b + len \<le> a) \<longrightarrow>
            (\<forall>k<len - i. fst (?ys ! k) = mem w (b + i + k))"
    proof (intro allI impI)
      fix b k
      assume b: "txBuf = Some b \<and> (\<forall>a. rxBuf = Some a \<longrightarrow> a \<le> b \<or> b + len \<le> a)"
        and k: "k < len - i"
      show "fst (?ys ! k) = mem w (b + i + k)"
      proof (cases k)
        case 0
        then show ?thesis
          using b by (simp add: t_def)
      next
        case (Suc k')
        then have k': "k' < len - (i + 1)" using k by simp
        then have "fst (xs ! k') = mem w2 (b + (i + 1) + k')"
          using snt b by blast
        moreover have "mem w2 (b + (i + 1) + k') = mem w (b + (i + 1) + k')"
        proof (cases rxBuf)
          case None
          then show ?thesis by (simp add: memw2)
        next
          case (Some a)
          then have "a \<le> b \<or> b + len \<le> a" using b by blast
          then have "b + (i + 1) + k' \<noteq> a + i" using k' by auto
          then show ?thesis using Some by (simp add: memw2)
        qed
        ultimately show ?thesis
          using Suc by simp
      qed
    qed
    from c1 c2 c3 c4 c5 c6 show ?thesis
      by blast
  qed
qed

lemma transferBurst_run:
  assumes "initialized s" and "spi s = Some sp" and "0 < len"
  shows "transferBurst X s txBuf rxBuf len w =
    (let w2 = w\<lparr>trace := trace w @ [BeginTransaction sp (speed s) MSBFIRST (mode s),
                DigitalWrite (cs s) LOW, DelayMicroseconds 1]\<rparr>;
         w3 = burst_loop X sp txBuf rxBuf len 0 w2
     in w3\<lparr>trace := trace w3 @ [DelayMicroseconds 1, DigitalWrite (cs s) HIGH,
                EndTransaction sp]\<rparr>)"
  using assms
  by (simp add: transferBurst_def beginTransaction_def endTransaction_def csLow_def csHigh_def
        SPIClass_beginTransaction_def SPIClass_endTransaction_def
        digitalWrite_def delayMicroseconds_def Let_def)

lemma transferBurst_trace:
  assumes "initialized s" and "spi s = Some sp" and "0 < len"
  shows "\<exists>xs. length xs = len
      \<and> trace (transferBurst X s txBuf rxBuf len w) = trace w @ transaction s sp xs"
proof -
  define w2 where "w2 = w\<lparr>trace := trace w @ [BeginTransaction sp (speed s) MSBFIRST (mode s),
                DigitalWrite (cs s) LOW, DelayMicroseconds 1]\<rparr>"
  from burst_loop_spec [of 0 len X sp txBuf rxBuf w2] obtain xs where
    "length xs = len"
    and "trace (burst_loop X sp txBuf rxBuf len 0 w2) = trace w2 @ exchanges sp xs"
    by auto
  then show ?thesis
    by (auto simp: transferBurst_run [OF assms] Let_def w2_def transaction_def)
qed

lemma exchange_count_transaction:
  "exchange_count (tr @ transaction s sp xs) = exchange_count tr + length xs"
proof -
  have "filter is_Transfer (exchanges sp xs) = exchanges sp xs"
    by (induction xs) (auto simp: exchanges_def)
  then show ?thesis
    by (simp add: exchange_count_def transaction_def exchanges_def)
qed

text \<open>
  C4 (as amended). On a handle that is initialized and whose driver pointer is not null,
  a burst of length \<open>len > 0\<close> logs exactly one transaction window holding \<open>len\<close>
  exchanges \<open>xs\<close>. With a null send buffer every byte sent is 0x00. With a null receive
  buffer the memory is left as it was. With a receive buffer at address \<open>a\<close>, byte \<open>k\<close>
  received ends at \<open>a + k\<close> for every \<open>k < len\<close>, and no address outside
  \<open>a .. a + len - 1\<close> changes: the function has no storage of its own to fill. With a
  send buffer at \<open>t\<close> that the receive buffer does not overwrite ahead of the read
  position, byte \<open>k\<close> sent is the byte found at \<open>t + k\<close> before the call.
\<close>

theorem transferBurst_exchanges_len:
  assumes "initialized s" and "spi s = Some sp" and "0 < len"
  shows "\<exists>xs. length xs = len
      \<and> trace (transferBurst X s txBuf rxBuf len w) = trace w @ transaction s sp xs
      \<and> (txBuf = None \<longrightarrow> map fst xs = replicate len 0)
      \<and> (rxBuf = None \<longrightarrow> mem (transferBurst X s txBuf rxBuf len w) = mem w)
      \<and> (\<forall>a. rxBuf = Some a \<longrightarrow>
            (\<forall>k<len. mem (transferBurst X s txBuf rxBuf len w) (a + k) = snd (xs ! k))
          \<and> (\<forall>p. p < a \<or> a + len \<le> p \<longrightarrow>
                 mem (transferBurst X s txBuf rxBuf len w) p = mem w p))
      \<and> (\<forall>t. txBuf = Some t \<and> (\<forall>a. rxBuf = Some a \<longrightarrow> a \<le> t \<or> t + len \<le> a) \<longrightarrow>
            (\<forall>k<len. fst (xs ! k) = mem w (t + k)))"
proof -
  define w2 where "w2 = w\<lparr>trace := trace w @ [BeginTransaction sp (speed s) MSBFIRST (mode s),
                DigitalWrite (cs s) LOW, DelayMicroseconds 1]\<rparr>"
  define w3 where "w3 = burst_loop X sp txBuf rxBuf len 0 w2"
  have run: "transferBurst X s txBuf rxBuf len w =
      w3\<lparr>trace := trace w3 @ [DelayMicroseconds 1, DigitalWrite (cs s) HIGH, EndTransaction sp]\<rparr>"
    by (simp add: transferBurst_run [OF assms] w3_def w2_def Let_def)
  have m2: "mem w2 = mem w" and t2: "trace w2 = trace w @ [BeginTransaction sp (speed s) MSBFIRST (mode s),
                DigitalWrite (cs s) LOW, DelayMicroseconds 1]"
    by (simp_all add: w2_def)
  from burst_loop_spec [of 0 len X sp txBuf rxBuf w2] obtain xs where
    len: "length xs = len"
    and tr: "trace w3 = trace w2 @ exchanges sp xs"
    and tx: "txBuf = None \<longrightarrow> map fst xs = replicate len 0"
    and rx0: "rxBuf = None \<longrightarrow> mem w3 = mem w2"
    and rx1: "\<forall>a. rxBuf = Some a \<longrightarrow>
            (\<forall>k<len. mem w3 (a + k) = snd (xs ! k))
          \<and> (\<forall>p. p < a \<or> a + len \<le> p \<longrightarrow> mem w3 p = mem w2 p)"
    and snt: "\<forall>t. txBuf = Some t \<and> (\<forall>a. rxBuf = Some a \<longrightarrow> a \<le> t \<or> t + len \<le> a) \<longrightarrow>
            (\<forall>k<len. fst (xs ! k) = mem w2 (t + k))"
    unfolding w3_def by auto
  have c2: "trace (transferBurst X s txBuf rxBuf len w) = trace w @ transaction s sp xs"
    by (simp add: run tr t2 transaction_def)
  have mm: "mem (transferBurst X s txBuf rxBuf len w) = mem w3"
    by (simp add: run)
  have c4: "rxBuf = None \<longrightarrow> mem (transferBurst X s txBuf rxBuf len w) = mem w"
    using rx0 unfolding mm m2 .
  have c5: "\<forall>a. rxBuf = Some a \<longrightarrow>
            (\<forall>k<len. mem (transferBurst X s txBuf rxBuf len w) (a + k) = snd (xs ! k))
          \<and> (\<forall>p. p < a \<or> a + len \<le> p \<longrightarrow>
                 mem (transferBurst X s txBuf rxBuf len w) p = mem w p)"
    using rx1 unfolding mm m2 .
  have c6: "\<forall>t. txBuf = Some t \<and> (\<forall>a. rxBuf = Some a \<longrightarrow> a \<le> t \<or> t + len \<le> a) \<longrightarrow>
            (\<forall>k<len. fst (xs ! k) = mem w (t + k))"
    using snt unfolding m2 .
  from len c2 tx c4 c5 c6 show ?thesis
    by blast
qed

theorem transferBurst_exchanges_len_witness:
  "initialized (fst (snd begun)) \<and> spi (fst (snd begun)) = Some 0 \<and> (0 :: nat) < 3
   \<and> exchange_count
        (trace (transferBurst echo (fst (snd begun)) (Some 100) (Some 200) 3 (snd (snd begun)))) = 3
   \<and> map (mem (transferBurst echo (fst (snd begun)) (Some 100) (Some 200) 3 (snd (snd begun))))
        [199, 200, 201, 202, 203] = [0, 1, 2, 3, 0]
   \<and> trace (transferBurst echo (fst (snd begun)) None None 2 (snd (snd begun)))
       = [PinMode 5 OUTPUT, DigitalWrite 5 HIGH,
          BeginTransaction 0 1000000 MSBFIRST 1, DigitalWrite 5 LOW, DelayMicroseconds 1,
          Transfer 0 0 0, Transfer 0 0 0,
          DelayMicroseconds 1, DigitalWrite 5 HIGH, EndTransaction 0]"
proof -
  have h1: "initialized (fst (snd begun))" and h2: "spi (fst (snd begun)) = Some 0"
    and h3: "(0 :: nat) < 3"
    by (simp_all add: begun_eq)
  have e: "exchange_count (trace (snd (snd begun))) = 0"
    by (simp add: begun_eq exchange_count_def)
  have "exchange_count
        (trace (transferBurst echo (fst (snd begun)) (Some 100) (Some 200) 3 (snd (snd begun)))) = 3"
    using transferBurst_exchanges_len [OF h1 h2 h3, of echo "Some 100" "Some 200" "snd (snd begun)"] e
    by (auto simp: exchange_count_transaction)
  moreover have "map (mem (transferBurst echo (fst (snd begun)) (Some 100) (Some 200) 3 (snd (snd begun))))
        [199, 200, 201, 202, 203] = [0, 1, 2, 3, 0]"
    by (simp add: begun_eq transferBurst_run Let_def burst_loop.simps SPIClass_transfer_def
          echo_def board_mem_def)
  moreover have "trace (transferBurst echo (fst (snd begun)) None None 2 (snd (snd begun)))
       = [PinMode 5 OUTPUT, DigitalWrite 5 HIGH,
          BeginTransaction 0 1000000 MSBFIRST 1, DigitalWrite 5 LOW, DelayMicroseconds 1,
          Transfer 0 0 0, Transfer 0 0 0,
          DelayMicroseconds 1, DigitalWrite 5 HIGH, EndTransaction 0]"
    by (simp add: begun_eq transferBurst_run Let_def burst_loop.simps SPIClass_transfer_def
          echo_def)
  ultimately show ?thesis
    using h1 h2 by simp
qed

text \<open>
  C4 as first stated, for every initialized handle, fails in the same way as C1: after
  \<open>begin(nullptr, 5, 1000000, 0)\<close> a burst of length 3 leaves the log and the memory
  untouched, and the log holds no exchange.
\<close>

theorem burst_null_driver_counterexample:
  "fst begun_null = True \<and> initialized (fst (snd begun_null))
   \<and> transferBurst echo (fst (snd begun_null)) (Some 100) (Some 200) 3 (snd (snd begun_null))
       = snd (snd begun_null)
   \<and> exchange_count (trace (snd (snd begun_null))) = 0"
  by (simp add: begun_null_eq transferBurst_def exchange_count_def)

section \<open>The select line\<close>

lemma drive_exchanges: "foldl (drive pin) l (exchanges sp xs) = l"
  by (induction xs arbitrary: l) (auto simp: exchanges_def)

lemma pin_level_transaction: "pin_level (cs s) (tr @ transaction s sp xs) = Some HIGH"
  by (simp add: pin_level_def transaction_def drive_exchanges)

lemma pin_level_begin:
  "pin_level cs_pin (tr @ [PinMode cs_pin OUTPUT, DigitalWrite cs_pin HIGH]) = Some HIGH"
  by (simp add: pin_level_def)

lemma windowedI: "spi s = Some sp \<Longrightarrow> xs \<noteq> [] \<Longrightarrow> windowed s (transaction s sp xs)"
  by (auto simp: windowed_def)

lemma transfer8_windowed: "\<exists>evs. trace (snd (transfer8 X s d w)) = trace w @ evs \<and> windowed s evs"
proof (cases "initialized s \<and> spi s \<noteq> None")
  case False
  then show ?thesis by (auto simp: transfer8_def windowed_def)
next
  case True
  then obtain sp where "initialized s" "spi s = Some sp" by auto
  then show ?thesis
    by (auto simp: transfer8_run Let_def intro!: windowedI)
qed

lemma transfer16_windowed: "\<exists>evs. trace (snd (transfer16 X s d w)) = trace w @ evs \<and> windowed s evs"
proof (cases "initialized s \<and> spi s \<noteq> None")
  case False
  then show ?thesis by (auto simp: transfer16_def windowed_def)
next
  case True
  then obtain sp where "initialized s" "spi s = Some sp" by auto
  then show ?thesis
    by (auto simp: transfer16_run Let_def intro!: windowedI)
qed

lemma transfer32_windowed: "\<exists>evs. trace (snd (transfer32 X s d w)) = trace w @ evs \<and> windowed s evs"
proof (cases "initialized s \<and> spi s \<noteq> None")
  case False
  then show ?thesis by (auto simp: transfer32_def windowed_def)
next
  case True
  then obtain sp where "initialized s" "spi s = Some sp" by auto
  then show ?thesis
    by (auto simp: transfer32_run Let_def intro!: windowedI)
qed

lemma transferBurst_windowed:
  "\<exists>evs. trace (transferBurst X s txBuf rxBuf len w) = trace w @ evs \<and> windowed s evs"
proof (cases "initialized s \<and> spi s \<noteq> None \<and> 0 < len")
  case False
  then show ?thesis by (auto simp: transferBurst_def windowed_def)
next
  case True
  then obtain sp where h: "initialized s" "spi s = Some sp" "0 < len" by auto
  from transferBurst_trace [OF h, of X txBuf rxBuf w] obtain xs where
    "length xs = len" "trace (transferBurst X s txBuf rxBuf len w) = trace w @ transaction s sp xs"
    by blast
  then show ?thesis
    using h by (auto intro!: windowedI)
qed

lemma windowed_level:
  assumes "windowed s evs" and "evs \<noteq> []"
  shows "pin_level (cs s) (tr @ evs) = Some HIGH"
  using assms by (auto simp: windowed_def pin_level_transaction)

lemma windowed_call:
  assumes "\<exists>evs. trace w' = trace w @ evs \<and> windowed s evs"
    and "cs s' = cs s" and "\<not> is_Begin c"
  shows "\<exists>evs. trace w' = trace w @ evs
      \<and> (if is_Begin c then evs = [PinMode (cs s') OUTPUT, DigitalWrite (cs s') HIGH]
          else cs s' = cs s \<and> windowed s evs)
      \<and> (evs \<noteq> [] \<longrightarrow> pin_level (cs s') (trace w') = Some HIGH)
      \<and> (pin_level (cs s) (trace w) = Some HIGH \<longrightarrow> pin_level (cs s') (trace w') = Some HIGH)"
proof -
  from assms(1) obtain evs where e: "trace w' = trace w @ evs" and wd: "windowed s evs"
    by blast
  have l: "evs \<noteq> [] \<longrightarrow> pin_level (cs s') (trace w') = Some HIGH"
    using windowed_level [OF wd, of "trace w"] by (simp add: e assms(2))
  have k: "pin_level (cs s) (trace w) = Some HIGH \<longrightarrow> pin_level (cs s') (trace w') = Some HIGH"
  proof (cases "evs = []")
    case True
    then show ?thesis by (simp add: e assms(2))
  next
    case False
    then show ?thesis using l by simp
  qed
  from e wd l k assms(2,3) show ?thesis
    by auto
qed

lemma windowed_Nil: "windowed s []"
  by (simp add: windowed_def)

lemma invoke_events:
  assumes "invoke X SPI_MODE3 c (s, w) = (s', w')"
  shows "\<exists>evs. trace w' = trace w @ evs
      \<and> (if is_Begin c then evs = [PinMode (cs s') OUTPUT, DigitalWrite (cs s') HIGH]
          else cs s' = cs s \<and> windowed s evs)
      \<and> (evs \<noteq> [] \<longrightarrow> pin_level (cs s') (trace w') = Some HIGH)
      \<and> (pin_level (cs s) (trace w) = Some HIGH \<longrightarrow> pin_level (cs s') (trace w') = Some HIGH)"
proof (cases c)
  case (Begin sp cs_pin hz m)
  then have "cs s' = cs_pin" and "trace w' = trace w @ [PinMode cs_pin OUTPUT, DigitalWrite cs_pin HIGH]"
    using assms by (auto simp: PapilioSPI_begin_def pinMode_def digitalWrite_def)
  then show ?thesis
    using Begin pin_level_begin [of cs_pin "trace w"] by simp
next
  case End
  then show ?thesis
    using assms by (intro windowed_call) (auto simp: PapilioSPI_end_def windowed_Nil)
next
  case (Transfer8 d)
  then show ?thesis
    using assms transfer8_windowed [of X s d w] by (intro windowed_call) auto
next
  case (Transfer16 d)
  then show ?thesis
    using assms transfer16_windowed [of X s d w] by (intro windowed_call) auto
next
  case (Transfer32 d)
  then show ?thesis
    using assms transfer32_windowed [of X s d w] by (intro windowed_call) auto
next
  case (TransferBurst txBuf rxBuf len)
  then show ?thesis
    using assms transferBurst_windowed [of X s txBuf rxBuf len w] by (intro windowed_call) auto
next
  case (SetBitWidth width)
  then show ?thesis
    using assms by (intro windowed_call) (auto simp: setBitWidth_def windowed_Nil)
next
  case (SetSpeed hz)
  then show ?thesis
    using assms by (intro windowed_call) (auto simp: setSpeed_def windowed_Nil)
next
  case (SetMode m)
  then show ?thesis
    using assms by (intro windowed_call) (auto simp: setMode_def windowed_Nil)
next
  case RxAvailable
  then show ?thesis
    using assms by (intro windowed_call) (auto simp: windowed_Nil)
next
  case TxReady
  then show ?thesis
    using assms by (intro windowed_call) (auto simp: windowed_Nil)
next
  case ReadFifo
  then show ?thesis
    using assms transfer8_windowed [of X s 0 w] by (intro windowed_call) (auto simp: readFifo_def)
next
  case (WriteFifo d)
  then show ?thesis
    using assms transfer8_windowed [of X s d w]
    by (intro windowed_call) (auto simp: writeFifo_def split_def)
next
  case IsReady
  then show ?thesis
    using assms transfer8_windowed [of X s "0xA5" w]
    by (intro windowed_call) (auto simp: isReady_world)
qed


lemma invoke_keeps_idle: "select_idle st \<Longrightarrow> select_idle (invoke X SPI_MODE3 c st)"
proof -
  assume i: "select_idle st"
  obtain s w where st: "st = (s, w)" by (cases st)
  obtain s' w' where r: "invoke X SPI_MODE3 c (s, w) = (s', w')" by (cases "invoke X SPI_MODE3 c (s, w)")
  from invoke_events [OF r] i show ?thesis
    by (auto simp: select_idle_def st r)
qed

lemma invoke_all_keeps_idle: "select_idle st \<Longrightarrow> select_idle (invoke_all X SPI_MODE3 calls st)"
  by (induction calls arbitrary: st) (simp_all add: invoke_keeps_idle)

lemma begin_idle: "select_idle (invoke X SPI_MODE3 (Begin sp cs_pin hz m) (s, w))"
  by (simp add: select_idle_def PapilioSPI_begin_def pinMode_def digitalWrite_def pin_level_def)

text \<open>
  C3. Take any call of a public member function, from any handle and any state of the
  hardware. If the call is \<open>begin\<close>, it configures the select pin and drives it high.
  Otherwise it keeps the select pin and either logs nothing or logs one whole transaction
  window: clock rate and mode of the handle applied first, then the select line driven
  low, then the exchanges, then the select line driven high, then the driver released.
  So whenever a call touches the hardware the select line is idle when it returns, and a
  select line that was idle before a call is idle after it. Hence in every program that
  starts with \<open>begin\<close> the select line is idle after the last call, whatever the calls
  are: none leaves it asserted.
\<close>

theorem select_line_never_left_asserted:
  "(\<exists>evs. trace (snd (invoke X SPI_MODE3 c (s, w))) = trace w @ evs
      \<and> (if is_Begin c
          then evs = [PinMode (cs (fst (invoke X SPI_MODE3 c (s, w)))) OUTPUT,
                      DigitalWrite (cs (fst (invoke X SPI_MODE3 c (s, w)))) HIGH]
          else cs (fst (invoke X SPI_MODE3 c (s, w))) = cs s \<and> windowed s evs)
      \<and> (evs \<noteq> [] \<longrightarrow> select_idle (invoke X SPI_MODE3 c (s, w)))
      \<and> (select_idle (s, w) \<longrightarrow> select_idle (invoke X SPI_MODE3 c (s, w))))
   \<and> select_idle (invoke_all X SPI_MODE3 (Begin sp cs_pin hz m # calls) (s, w))"
proof (rule conjI)
  have r: "invoke X SPI_MODE3 c (s, w)
           = (fst (invoke X SPI_MODE3 c (s, w)), snd (invoke X SPI_MODE3 c (s, w)))"
    by simp
  from invoke_events [OF r] show "\<exists>evs. trace (snd (invoke X SPI_MODE3 c (s, w))) = trace w @ evs
      \<and> (if is_Begin c
          then evs = [PinMode (cs (fst (invoke X SPI_MODE3 c (s, w)))) OUTPUT,
                      DigitalWrite (cs (fst (invoke X SPI_MODE3 c (s, w)))) HIGH]
          else cs (fst (invoke X SPI_MODE3 c (s, w))) = cs s \<and> windowed s evs)
      \<and> (evs \<noteq> [] \<longrightarrow> select_idle (invoke X SPI_MODE3 c (s, w)))
      \<and> (select_idle (s, w) \<longrightarrow> select_idle (invoke X SPI_MODE3 c (s, w)))"
    unfolding select_idle_def fst_conv snd_conv .
next
  show "select_idle (invoke_all X SPI_MODE3 (Begin sp cs_pin hz m # calls) (s, w))"
    using invoke_all_keeps_idle [OF begin_idle] by simp
qed

theorem select_line_never_left_asserted_witness:
  "select_idle (snd begun)
   \<and> select_idle (invoke echo 3 (Transfer16 0xBEEF) (snd begun))
   \<and> trace (snd (invoke echo 3 (Transfer16 0xBEEF) (snd begun)))
       = [PinMode 5 OUTPUT, DigitalWrite 5 HIGH,
          BeginTransaction 0 1000000 MSBFIRST 1, DigitalWrite 5 LOW, DelayMicroseconds 1,
          Transfer 0 0xBE 0xBE, Transfer 0 0xEF 0xEF,
          DelayMicroseconds 1, DigitalWrite 5 HIGH, EndTransaction 0]
   \<and> select_idle (invoke_all echo 3
        [Begin (Some 0) 5 1000000 1, Transfer8 0x5A, TransferBurst None None 2, End]
        (PapilioSPI_new 0, board))"
proof -
  have b: "select_idle (snd begun)"
    by (simp add: begun_eq select_idle_def pin_level_def)
  have p: "snd begun = (fst (snd begun), snd (snd begun))"
    by simp
  have "select_idle (invoke echo 3 (Transfer16 0xBEEF) (snd begun))"
    using select_line_never_left_asserted [of echo 3 "Transfer16 0xBEEF" "fst (snd begun)"
        "snd (snd begun)"] b
    unfolding p [symmetric] by blast
  moreover have "select_idle (invoke_all echo 3
        [Begin (Some 0) 5 1000000 1, Transfer8 0x5A, TransferBurst None None 2, End]
        (PapilioSPI_new 0, board))"
    using select_line_never_left_asserted [of echo 3 _ "PapilioSPI_new 0" board "Some 0" 5
        1000000 1 "[Transfer8 0x5A, TransferBurst None None 2, End]"]
    by blast
  moreover have "trace (snd (invoke echo 3 (Transfer16 0xBEEF) (snd begun)))
       = [PinMode 5 OUTPUT, DigitalWrite 5 HIGH,
          BeginTransaction 0 1000000 MSBFIRST 1, DigitalWrite 5 LOW, DelayMicroseconds 1,
          Transfer 0 0xBE 0xBE, Transfer 0 0xEF 0xEF,
          DelayMicroseconds 1, DigitalWrite 5 HIGH, EndTransaction 0]"
    by (simp add: begun_eq transfer16_run Let_def transaction_def exchanges_def echo_def)
  ultimately show ?thesis
    using b by simp
qed

section \<open>The stored word width\<close>

lemma helpers_ignore_bitWidth:
  "beginTransaction (s\<lparr>bitWidth := b\<rparr>) = beginTransaction s"
  "endTransaction (s\<lparr>bitWidth := b\<rparr>) = endTransaction s"
  "csLow (s\<lparr>bitWidth := b\<rparr>) = csLow s"
  "csHigh (s\<lparr>bitWidth := b\<rparr>) = csHigh s"
  by (simp_all add: fun_eq_iff beginTransaction_def endTransaction_def csLow_def csHigh_def
        split: option.splits)

lemma transfers_ignore_bitWidth:
  "transfer8 X (s\<lparr>bitWidth := b\<rparr>) d8 w = transfer8 X s d8 w"
  "transfer16 X (s\<lparr>bitWidth := b\<rparr>) d16 w = transfer16 X s d16 w"
  "transfer32 X (s\<lparr>bitWidth := b\<rparr>) d32 w = transfer32 X s d32 w"
  "transferBurst X (s\<lparr>bitWidth := b\<rparr>) txBuf rxBuf len w = transferBurst X s txBuf rxBuf len w"
  by (simp_all add: transfer8_def transfer16_def transfer32_def transferBurst_def
        helpers_ignore_bitWidth)

text \<open>
  C9. Two handles that agree on every field except \<open>_bitWidth\<close> behave alike: each of
  \<open>transfer8\<close>, \<open>transfer16\<close>, \<open>transfer32\<close> and \<open>transferBurst\<close> returns the same
  value and leaves the same log and the same memory from either of them.
\<close>

theorem bitWidth_never_read:
  assumes "spi s1 = spi s2" and "cs s1 = cs s2" and "speed s1 = speed s2"
    and "mode s1 = mode s2" and "initialized s1 = initialized s2"
  shows "transfer8 X s1 d8 w = transfer8 X s2 d8 w
       \<and> transfer16 X s1 d16 w = transfer16 X s2 d16 w
       \<and> transfer32 X s1 d32 w = transfer32 X s2 d32 w
       \<and> transferBurst X s1 txBuf rxBuf len w = transferBurst X s2 txBuf rxBuf len w"
proof -
  have "s1 = s2\<lparr>bitWidth := bitWidth s1\<rparr>"
    using assms by (cases s1, cases s2) simp
  then obtain b where "s1 = s2\<lparr>bitWidth := b\<rparr>" ..
  then show ?thesis
    by (simp add: transfers_ignore_bitWidth)
qed

theorem bitWidth_never_read_witness:
  "bitWidth (setBitWidth (fst (snd begun)) 32) = 32 \<and> bitWidth (fst (snd begun)) = 8
   \<and> transfer32 echo (setBitWidth (fst (snd begun)) 32) 0xDEADBEEF (snd (snd begun))
       = transfer32 echo (fst (snd begun)) 0xDEADBEEF (snd (snd begun))
   \<and> transferBurst echo (setBitWidth (fst (snd begun)) 32) (Some 100) (Some 200) 3 (snd (snd begun))
       = transferBurst echo (fst (snd begun)) (Some 100) (Some 200) 3 (snd (snd begun))"
proof -
  have h: "spi (setBitWidth (fst (snd begun)) 32) = spi (fst (snd begun))"
    "cs (setBitWidth (fst (snd begun)) 32) = cs (fst (snd begun))"
    "speed (setBitWidth (fst (snd begun)) 32) = speed (fst (snd begun))"
    "mode (setBitWidth (fst (snd begun)) 32) = mode (fst (snd begun))"
    "initialized (setBitWidth (fst (snd begun)) 32) = initialized (fst (snd begun))"
    by (simp_all add: setBitWidth_def)
  show ?thesis
    using bitWidth_never_read [OF h, of echo _ "snd (snd begun)" _ "0xDEADBEEF"
        "Some 100" "Some 200" 3]
    by (simp add: setBitWidth_def begun_eq)
qed

end
